theory Spec2Isabelle
  imports Main "HOL-Library.Word"
begin

section \<open>The sqlite span reader (plugin/spanreader/sqlite/span\_reader.go)\<close>

subsection \<open>Go values: errors, pointers, slices, the logger\<close>

text \<open>
  Every error of the reader is either made by \<open>fmt.Errorf\<close> from a message or handed up
  from the query builder or the database; all the code ever does with one is to format
  it with \<open>%v\<close> or pass it on. An error is therefore its message.
\<close>

datatype error = Errorf string

fun Error :: "error \<Rightarrow> string" where
  "Error (Errorf msg) = msg"

text \<open>A Go pointer is \<open>Null\<close> or refers to a value; a Go slice is \<open>NilSlice\<close> or holds a list.\<close>

datatype 'a ptr = Null | Ptr 'a

datatype 'a slice = NilSlice | Slice "'a list"

fun elems :: "'a slice \<Rightarrow> 'a list" where
  "elems NilSlice = []"
| "elems (Slice xs) = xs"

definition len :: "'a slice \<Rightarrow> nat" where
  "len s = length (elems s)"

text \<open>\<open>append(s, x)\<close>: the result is never the nil slice.\<close>

definition append_go :: "'a slice \<Rightarrow> 'a \<Rightarrow> 'a slice" where
  "append_go s x = Slice (elems s @ [x])"

text \<open>\<open>make([]T, 0)\<close>: allocated and empty.\<close>

definition make0 :: "'a slice" where
  "make0 = Slice []"

text \<open>
  \<open>sr.logger.Error(msg, zap.Error(err))\<close> is the only effect besides the database. Each
  operation returns, next to its result, the entries it logged, in order.
\<close>

datatype log_entry = LogError string error

text \<open>\<open>fmt.Sprintf("%d", n)\<close> for an unsigned \<open>n\<close>.\<close>

definition digit :: "nat \<Rightarrow> char" where
  "digit d = ''0123456789'' ! d"

function Sprintf_d :: "nat \<Rightarrow> string" where
  "Sprintf_d n = (if n < 10 then [digit n] else Sprintf_d (n div 10) @ [digit (n mod 10)])"
  by pat_completeness auto
termination
  by (relation "measure id") auto

declare Sprintf_d.simps [simp del]

subsection \<open>The database client\<close>

text \<open>
  \<open>sr.client.db\<close>: \<open>PrepareContext\<close> gives a statement or an error, the statement's
  \<open>QueryContext\<close> gives rows or an error. The row cursor (\<open>rows.Next\<close>, \<open>rows.Scan\<close>) is
  the list of what \<open>Scan\<close> does at each row: \<open>Inl err\<close> when it returns an error,
  \<open>Inr v\<close> when it stores \<open>v\<close> into the caller's destinations. The deferred
  \<open>Close\<close> calls release the statement and the cursor and change no result.
\<close>

datatype stmt = Stmt string

record 'a sqliteClient =
  PrepareContext :: "string \<Rightarrow> error + stmt"
  QueryContext :: "stmt \<Rightarrow> error + (error + 'a) list"

record 'a spanReader =
  client :: "'a sqliteClient"

subsection \<open>Search\<close>

text \<open>
  Modelled from the spec: the span types of package internalspan are not in the source
  at hand. A span has an identity and nanosecond timestamps, with a derived duration; the
  reader reads \<open>Span.StartTimeUnixNano\<close> and \<open>ExternalFields.DurationNano\<close>, both
  unsigned 64-bit and printed with \<open>%d\<close>. A span that the conversion yields has both
  parts: only the span itself may be a nil pointer.
\<close>

record Span =
  SpanId :: string
  StartTimeUnixNano :: "64 word"

record ExternalFields =
  DurationNano :: "64 word"

record InternalSpan =
  Span :: Span
  ExternalFields :: ExternalFields

text \<open>
  Modelled from the spec: the request type of package spansquery is not in the source at
  hand. A request has filters (key, operator, value), an optional sort field, an optional
  continuation cursor and a page-size bound. The reader only hands it to
  \<open>buildSearchQuery\<close>.
\<close>

record SearchRequest =
  SearchFilters :: "(string \<times> string \<times> string) list"
  Sort :: "string option"
  Cursor :: "string option"
  PageSize :: nat

record Metadata =
  NextToken :: string

record SearchResponse =
  Spans :: "InternalSpan ptr slice"
  Metadata :: "Metadata ptr"

text \<open>What \<open>buildSearchQuery\<close> returns: the reader uses its \<open>getQuery()\<close> and \<open>getSort()\<close>.\<close>

record searchQueryResponse =
  getQuery :: string
  getSort :: string

text \<open>
  The row loop of \<open>Search\<close>. \<open>toInternalSpan\<close> (not in the source at hand) is a parameter:
  it returns an error, or a pointer that the code itself does not trust to be non-nil.
\<close>

fun Search_rows ::
  "('s \<Rightarrow> error + InternalSpan ptr) \<Rightarrow> (error + 's) list \<Rightarrow>
   InternalSpan ptr slice \<times> log_entry list \<Rightarrow> InternalSpan ptr slice \<times> log_entry list" where
  "Search_rows toInternalSpan [] acc = acc"
| "Search_rows toInternalSpan (Inl err # rows) (spans, lg) =
     Search_rows toInternalSpan rows (spans, lg @ [LogError ''failed to get span value'' err])"
| "Search_rows toInternalSpan (Inr sqliteSpan # rows) (spans, lg) =
     (case toInternalSpan sqliteSpan of
        Inl err \<Rightarrow>
          Search_rows toInternalSpan rows (spans, lg @ [LogError ''failed to convert span'' err])
      | Inr internalSpan \<Rightarrow>
          Search_rows toInternalSpan rows (append_go spans internalSpan, lg))"

text \<open>The block after the loop: the next-page metadata.\<close>

definition Search_metadata :: "string \<Rightarrow> InternalSpan ptr slice \<Rightarrow> Metadata ptr" where
  "Search_metadata sortField spans =
     (if len spans > 0 then
        (let lastInternalSpanIndex = len spans - 1 in
         case elems spans ! lastInternalSpanIndex of
           Null \<Rightarrow> Null
         | Ptr lastInternalSpan \<Rightarrow>
             Ptr \<lparr>NextToken =
               (if sortField = ''duration''
                then Sprintf_d (unat (DurationNano (ExternalFields lastInternalSpan)))
                else Sprintf_d (unat (StartTimeUnixNano (Span lastInternalSpan))))\<rparr>)
      else Null)"

definition Search ::
  "(SearchRequest \<Rightarrow> error + searchQueryResponse) \<Rightarrow> ('s \<Rightarrow> error + InternalSpan ptr) \<Rightarrow>
   's spanReader \<Rightarrow> SearchRequest \<Rightarrow> (error + SearchResponse) \<times> log_entry list" where
  "Search buildSearchQuery toInternalSpan sr r =
     (case buildSearchQuery r of
        Inl err \<Rightarrow> (Inl err, [])
      | Inr searchQueryResponse \<Rightarrow>
          (case PrepareContext (client sr) (getQuery searchQueryResponse) of
             Inl err \<Rightarrow> (Inl (Errorf (''failed to prepare query: '' @ Error err)), [])
           | Inr stmt \<Rightarrow>
               (case QueryContext (client sr) stmt of
                  Inl err \<Rightarrow> (Inl (Errorf (''failed to query spans: '' @ Error err)), [])
                | Inr rows \<Rightarrow>
                    (case Search_rows toInternalSpan rows (make0, []) of
                       (spans, lg) \<Rightarrow>
                         (Inr \<lparr>Spans = spans,
                               Metadata = Search_metadata (getSort searchQueryResponse) spans\<rparr>,
                          lg)))))"

subsection \<open>GetAvailableTags\<close>

record TagInfo =
  Name :: string
  Type :: string

record GetAvailableTagsResponse =
  Tags :: "TagInfo slice"

text \<open>
  \<open>staticTagTypeMap\<close> (not in the source at hand) is a parameter. It is a Go map: \<open>range\<close>
  visits every key once, in an order the language leaves open. The parameter is the list
  of its entries in the order of that visit.
\<close>

fun GetAvailableTags_static :: "(string \<times> string) list \<Rightarrow> TagInfo slice \<Rightarrow> TagInfo slice" where
  "GetAvailableTags_static [] tags = tags"
| "GetAvailableTags_static ((tagName, fieldType) # rest) tags =
     GetAvailableTags_static rest (append_go tags \<lparr>Name = tagName, Type = fieldType\<rparr>)"

text \<open>
  Modelled from the spec: the struct \<open>sqliteTag\<close> that \<open>Scan\<close> fills for one row of the
  discovery query is not in the source at hand. A discovered pair has a source key, a field
  name and a reported type, either of the first two empty for a null column; the reader
  only calls the three getters, so the model holds what they return.
\<close>

record sqliteTag =
  getTableKey :: string
  getTagName :: string
  getTagType :: string

fun GetAvailableTags_rows ::
  "(error + sqliteTag) list \<Rightarrow> TagInfo slice \<times> log_entry list \<Rightarrow>
   TagInfo slice \<times> log_entry list" where
  "GetAvailableTags_rows [] acc = acc"
| "GetAvailableTags_rows (Inl err # rows) (tags, lg) =
     GetAvailableTags_rows rows (tags, lg @ [LogError ''failed to get tag value'' err])"
| "GetAvailableTags_rows (Inr sqliteTag # rows) (tags, lg) =
     (if getTableKey sqliteTag = '''' \<or> getTagName sqliteTag = ''''
      then GetAvailableTags_rows rows (tags, lg)
      else GetAvailableTags_rows rows
             (append_go tags
                \<lparr>Name = getTableKey sqliteTag @ ''.'' @ getTagName sqliteTag,
                 Type = getTagType sqliteTag\<rparr>, lg))"

text \<open>\<open>buildDynamicTagsQuery()\<close> (not in the source at hand) takes no argument: a query text.\<close>

definition GetAvailableTags ::
  "(string \<times> string) list \<Rightarrow> string \<Rightarrow> sqliteTag spanReader \<Rightarrow> 'req \<Rightarrow>
   (error + GetAvailableTagsResponse) \<times> log_entry list" where
  "GetAvailableTags staticTagTypeMap buildDynamicTagsQuery sr r =
     (let tags = GetAvailableTags_static staticTagTypeMap NilSlice;
          query = buildDynamicTagsQuery in
      case PrepareContext (client sr) query of
        Inl err \<Rightarrow> (Inl (Errorf (''failed to prepare query: '' @ Error err)), [])
      | Inr stmt \<Rightarrow>
          (case QueryContext (client sr) stmt of
             Inl err \<Rightarrow> (Inl (Errorf (''failed to query tags: '' @ Error err)), [])
           | Inr rows \<Rightarrow>
               (case GetAvailableTags_rows rows (tags, []) of
                  (tags', lg) \<Rightarrow> (Inr \<lparr>Tags = tags'\<rparr>, lg))))"

subsection \<open>GetTagValues and GetTagsValues\<close>

text \<open>
  \<open>Value\<close> has type \<open>any\<close>: \<open>None\<close> is the nil interface, \<open>Some v\<close> a value the driver
  produced. \<open>Count\<close> is a Go \<open>int\<close> that is only copied.
\<close>

record 'v TagValueInfo =
  Value :: "'v option"
  Count :: int

record 'v TagValuesResponse =
  Values :: "'v TagValueInfo slice"

text \<open>What \<open>buildTagValuesQuery\<close> returns: the reader uses its \<open>getQuery()\<close>.\<close>

record tagValueQueryResponse =
  getQuery' :: string

fun GetTagValues_rows ::
  "(error + 'v option \<times> int) list \<Rightarrow> 'v TagValueInfo slice \<times> log_entry list \<Rightarrow>
   'v TagValueInfo slice \<times> log_entry list" where
  "GetTagValues_rows [] acc = acc"
| "GetTagValues_rows (Inl err # rows) (currentTagValues, lg) =
     GetTagValues_rows rows (currentTagValues, lg @ [LogError ''failed to get tag value'' err])"
| "GetTagValues_rows (Inr (name, count) # rows) (currentTagValues, lg) =
     (if name = None
      then GetTagValues_rows rows (currentTagValues, lg)
      else GetTagValues_rows rows
             (append_go currentTagValues \<lparr>Value = name, Count = count\<rparr>, lg))"

text \<open>
  The result pair of Go is a sum: \<open>Inl err\<close> is \<open>(nil, err)\<close> and \<open>Inr v\<close> is \<open>(&v, nil)\<close>,
  the only two shapes these operations return.
\<close>

definition GetTagValues ::
  "('req \<Rightarrow> string \<Rightarrow> error + tagValueQueryResponse) \<Rightarrow> ('v option \<times> int) spanReader \<Rightarrow>
   'req \<Rightarrow> string \<Rightarrow> (error + 'v TagValuesResponse) \<times> log_entry list" where
  "GetTagValues buildTagValuesQuery sr r tag =
     (case buildTagValuesQuery r tag of
        Inl err \<Rightarrow>
          (Inl err, [LogError (''failed to build tag values query for: '' @ tag) err])
      | Inr tagValueQueryResponse \<Rightarrow>
          (case PrepareContext (client sr) (getQuery' tagValueQueryResponse) of
             Inl err \<Rightarrow>
               (Inl err,
                [LogError (''failed to prepare query: '' @ getQuery' tagValueQueryResponse) err])
           | Inr stmt \<Rightarrow>
               (case QueryContext (client sr) stmt of
                  Inl err \<Rightarrow>
                    (Inl err, [LogError (''failed to query tags values for: '' @ tag) err])
                | Inr rows \<Rightarrow>
                    (case GetTagValues_rows rows (NilSlice, []) of
                       (currentTagValues, lg) \<Rightarrow>
                         (Inr \<lparr>Values = currentTagValues\<rparr>, lg)))))"

fun GetTagsValues_loop ::
  "('req \<Rightarrow> string \<Rightarrow> error + tagValueQueryResponse) \<Rightarrow> ('v option \<times> int) spanReader \<Rightarrow>
   'req \<Rightarrow> string list \<Rightarrow> (string \<rightharpoonup> 'v TagValuesResponse) \<times> log_entry list \<Rightarrow>
   (string \<rightharpoonup> 'v TagValuesResponse) \<times> log_entry list" where
  "GetTagsValues_loop buildTagValuesQuery sr r [] acc = acc"
| "GetTagsValues_loop buildTagValuesQuery sr r (tag # tags) (result, lg) =
     (case GetTagValues buildTagValuesQuery sr r tag of
        (Inl err, lg') \<Rightarrow>
          GetTagsValues_loop buildTagValuesQuery sr r tags
            (result, lg @ lg' @ [LogError ''failed to get tag value'' err])
      | (Inr tagValueResponse, lg') \<Rightarrow>
          GetTagsValues_loop buildTagValuesQuery sr r tags
            (result(tag \<mapsto> tagValueResponse), lg @ lg'))"

definition GetTagsValues ::
  "('req \<Rightarrow> string \<Rightarrow> error + tagValueQueryResponse) \<Rightarrow> ('v option \<times> int) spanReader \<Rightarrow>
   'req \<Rightarrow> string list \<Rightarrow>
   (error + (string \<rightharpoonup> 'v TagValuesResponse)) \<times> log_entry list" where
  "GetTagsValues buildTagValuesQuery sr r tags =
     (case GetTagsValues_loop buildTagValuesQuery sr r tags (Map.empty, []) of
        (result, lg) \<Rightarrow> (Inr result, lg))"

subsection \<open>The operations that are not implemented\<close>




subsection \<open>The rows a loop keeps, and what it logs\<close>

text \<open>
  These say in the words of the specification what the row loops are to compute; the
  theorems below compare them with the loops above. \<open>scanned rows\<close> are the rows
  \<open>Scan\<close> succeeded on, in order.
\<close>

definition scanned :: "(error + 'a) list \<Rightarrow> 'a list" where
  "scanned rows = List.map_filter (\<lambda>row. case row of Inl err \<Rightarrow> None | Inr v \<Rightarrow> Some v) rows"

text \<open>A row decodes when \<open>Scan\<close> and the conversion both succeed; it fails at the first that does not.\<close>

definition row_span :: "('s \<Rightarrow> error + InternalSpan ptr) \<Rightarrow> error + 's \<Rightarrow> InternalSpan ptr option" where
  "row_span toInternalSpan row =
     (case row of
        Inl err \<Rightarrow> None
      | Inr sqliteSpan \<Rightarrow>
          (case toInternalSpan sqliteSpan of Inl err \<Rightarrow> None | Inr p \<Rightarrow> Some p))"

definition row_failure :: "('s \<Rightarrow> error + InternalSpan ptr) \<Rightarrow> error + 's \<Rightarrow> log_entry option" where
  "row_failure toInternalSpan row =
     (case row of
        Inl err \<Rightarrow> Some (LogError ''failed to get span value'' err)
      | Inr sqliteSpan \<Rightarrow>
          (case toInternalSpan sqliteSpan of
             Inl err \<Rightarrow> Some (LogError ''failed to convert span'' err)
           | Inr p \<Rightarrow> None))"

text \<open>The entry of the tag list for a static tag and for a discovered (source, field) pair.\<close>

definition static_tag :: "string \<times> string \<Rightarrow> TagInfo" where
  "static_tag e = \<lparr>Name = fst e, Type = snd e\<rparr>"

definition qualified_name :: "sqliteTag \<Rightarrow> string" where
  "qualified_name t = getTableKey t @ ''.'' @ getTagName t"

definition dynamic_tag :: "sqliteTag \<Rightarrow> TagInfo" where
  "dynamic_tag t = \<lparr>Name = qualified_name t, Type = getTagType t\<rparr>"

definition both_non_empty :: "sqliteTag \<Rightarrow> bool" where
  "both_non_empty t \<longleftrightarrow> getTableKey t \<noteq> '''' \<and> getTagName t \<noteq> ''''"

text \<open>The entry of the value list for a scanned row.\<close>

definition value_entry :: "'v option \<times> int \<Rightarrow> 'v TagValueInfo" where
  "value_entry row = \<lparr>Value = fst row, Count = snd row\<rparr>"

text \<open>
  A row without a value: its scan failed, or the value is null. What the lookup of one tag
  contributes to the batch result: its response, when it succeeds. Within one batch call
  the database answers a query text the same way each time.
\<close>

definition no_value :: "error + 'v option \<times> int \<Rightarrow> bool" where
  "no_value row = (case row of Inl err \<Rightarrow> True | Inr (name, count) \<Rightarrow> name = None)"

definition tag_lookup ::
  "('req \<Rightarrow> string \<Rightarrow> error + tagValueQueryResponse) \<Rightarrow> ('v option \<times> int) spanReader \<Rightarrow>
   'req \<Rightarrow> string \<Rightarrow> 'v TagValuesResponse option" where
  "tag_lookup buildTagValuesQuery sr r tag =
     (case fst (GetTagValues buildTagValuesQuery sr r tag) of
        Inl err \<Rightarrow> None
      | Inr resp \<Rightarrow> Some resp)"

text \<open>What the batch call logs for one tag: the entries of the lookup, then its own on a failure.\<close>

definition tag_log ::
  "('req \<Rightarrow> string \<Rightarrow> error + tagValueQueryResponse) \<Rightarrow> ('v option \<times> int) spanReader \<Rightarrow>
   'req \<Rightarrow> string \<Rightarrow> log_entry list" where
  "tag_log buildTagValuesQuery sr r tag =
     (case GetTagValues buildTagValuesQuery sr r tag of
        (Inl err, lg) \<Rightarrow> lg @ [LogError ''failed to get tag value'' err]
      | (Inr (resp :: 'v TagValuesResponse), lg) \<Rightarrow> lg)"

text \<open>Reading a decimal string back, to say that \<open>Sprintf_d\<close> prints the number.\<close>

definition digit_value :: "char \<Rightarrow> nat" where
  "digit_value c = of_char c - 48"

definition decimal_value :: "string \<Rightarrow> nat" where
  "decimal_value s = foldl (\<lambda>acc c. 10 * acc + digit_value c) 0 s"

subsection \<open>Scenarios\<close>

text \<open>
  Concrete readers for the scenarios of the specification. The database accepts every
  query text and answers with the given rows; a raw span row is an id, a start time and a
  duration, and its conversion fails on an empty id.
\<close>

definition scenario_reader :: "(error + 'a) list \<Rightarrow> 'a spanReader" where
  "scenario_reader rows =
     \<lparr>client = \<lparr>PrepareContext = (\<lambda>query. Inr (Stmt query)),
                 QueryContext = (\<lambda>stmt. Inr rows)\<rparr>\<rparr>"

definition scenario_request :: SearchRequest where
  "scenario_request =
     \<lparr>SearchFilters = [(''http.status_code'', ''gte'', ''500'')],
      Sort = None, Cursor = None, PageSize = 10\<rparr>"

definition scenario_buildSearchQuery :: "SearchRequest \<Rightarrow> error + searchQueryResponse" where
  "scenario_buildSearchQuery r =
     Inr \<lparr>getQuery = ''SELECT spans'',
          getSort = (case Sort r of None \<Rightarrow> ''start_time_unix_nano'' | Some f \<Rightarrow> f)\<rparr>"

definition scenario_toInternalSpan ::
  "string \<times> 64 word \<times> 64 word \<Rightarrow> error + InternalSpan ptr" where
  "scenario_toInternalSpan row =
     (case row of (sid, start, dur) \<Rightarrow>
        if sid = '''' then Inl (Errorf ''span without id'')
        else Inr (Ptr \<lparr>Span = \<lparr>SpanId = sid, StartTimeUnixNano = start\<rparr>,
                       ExternalFields = \<lparr>DurationNano = dur\<rparr>\<rparr>))"

definition scenario_span :: "string \<Rightarrow> 64 word \<Rightarrow> 64 word \<Rightarrow> InternalSpan" where
  "scenario_span sid start dur =
     \<lparr>Span = \<lparr>SpanId = sid, StartTimeUnixNano = start\<rparr>,
      ExternalFields = \<lparr>DurationNano = dur\<rparr>\<rparr>"

definition scenario_span_rows :: "(error + string \<times> 64 word \<times> 64 word) list" where
  "scenario_span_rows =
     [Inr (''s1'', 100, 7), Inl (Errorf ''column type mismatch''),
      Inr ('''', 80, 1), Inr (''s2'', 50, 9)]"

definition scenario_tag :: "string \<Rightarrow> string \<Rightarrow> string \<Rightarrow> sqliteTag" where
  "scenario_tag source field ty = \<lparr>getTableKey = source, getTagName = field, getTagType = ty\<rparr>"

definition scenario_buildTagValuesQuery :: "unit \<Rightarrow> string \<Rightarrow> error + tagValueQueryResponse" where
  "scenario_buildTagValuesQuery r tag = Inr \<lparr>getQuery' = ''SELECT values of '' @ tag\<rparr>"

text \<open>Scenario 5: the query for tag \<open>b\<close> fails in the database, every other one gives the rows.\<close>

definition scenario_reader_b :: "(error + 'a) list \<Rightarrow> 'a spanReader" where
  "scenario_reader_b rows =
     \<lparr>client = \<lparr>PrepareContext = (\<lambda>query. Inr (Stmt query)),
                 QueryContext = (\<lambda>stmt.
                   if stmt = Stmt ''SELECT values of b'' then Inl (Errorf ''no such column'')
                   else Inr rows)\<rparr>\<rparr>"

definition scenario_value_rows :: "(error + string option \<times> int) list" where
  "scenario_value_rows = [Inr (Some ''GET'', 12), Inr (Some ''POST'', 3), Inr (None, 5)]"

text \<open>
  Scenario 1, with two rows in between that do not decode: the page the reader is to
  return, what it is to log, and the page when no row decodes.
\<close>

definition scenario_page :: SearchResponse where
  "scenario_page =
     \<lparr>Spans = Slice [Ptr (scenario_span ''s1'' 100 7), Ptr (scenario_span ''s2'' 50 9)],
      Metadata = Ptr \<lparr>NextToken = ''50''\<rparr>\<rparr>"

definition scenario_log :: "log_entry list" where
  "scenario_log =
     [LogError ''failed to get span value'' (Errorf ''column type mismatch''),
      LogError ''failed to convert span'' (Errorf ''span without id'')]"

definition scenario_failing_rows :: "(error + string \<times> 64 word \<times> 64 word) list" where
  "scenario_failing_rows = [Inl (Errorf ''column type mismatch''), Inr ('''', 80, 1)]"

definition scenario_empty_page :: SearchResponse where
  "scenario_empty_page = \<lparr>Spans = Slice [], Metadata = Null\<rparr>"



definition scenario_query :: searchQueryResponse where
  "scenario_query = \<lparr>getQuery = ''SELECT spans'', getSort = ''start_time_unix_nano''\<rparr>"

text \<open>
  Scenario 3, with rows that are skipped; and a discovery that reports one attribute of
  the spans with values of two types.
\<close>

definition scenario_static :: "(string \<times> string) list" where
  "scenario_static = [(''http.method'', ''string'')]"

definition scenario_tag_rows :: "(error + sqliteTag) list" where
  "scenario_tag_rows =
     [Inr (scenario_tag ''resource'' ''service.name'' ''string''),
      Inl (Errorf ''column type mismatch''),
      Inr (scenario_tag '''' ''orphan'' ''string''),
      Inr (scenario_tag ''scope'' '''' ''string'')]"

definition scenario_tags :: GetAvailableTagsResponse where
  "scenario_tags =
     \<lparr>Tags = Slice [\<lparr>Name = ''http.method'', Type = ''string''\<rparr>,
                    \<lparr>Name = ''resource.service.name'', Type = ''string''\<rparr>]\<rparr>"

definition scenario_clash_rows :: "(error + sqliteTag) list" where
  "scenario_clash_rows =
     [Inr (scenario_tag ''span'' ''http.status_code'' ''number''),
      Inr (scenario_tag ''span'' ''http.status_code'' ''string'')]"

definition scenario_clash_tags :: GetAvailableTagsResponse where
  "scenario_clash_tags =
     \<lparr>Tags = Slice [\<lparr>Name = ''http.method'', Type = ''string''\<rparr>,
                    \<lparr>Name = ''span.http.status_code'', Type = ''number''\<rparr>,
                    \<lparr>Name = ''span.http.status_code'', Type = ''string''\<rparr>]\<rparr>"

text \<open>Scenarios 4 and 5: the values of a tag, rows without a value, the log of the batch.\<close>

definition scenario_values :: "string TagValuesResponse" where
  "scenario_values =
     \<lparr>Values = Slice [\<lparr>Value = Some ''GET'', Count = 12\<rparr>,
                      \<lparr>Value = Some ''POST'', Count = 3\<rparr>]\<rparr>"

definition scenario_null_rows :: "(error + string option \<times> int) list" where
  "scenario_null_rows = [Inr (None, 5), Inl (Errorf ''column type mismatch'')]"

definition scenario_b_log :: "log_entry list" where
  "scenario_b_log =
     [LogError ''failed to query tags values for: b'' (Errorf ''no such column''),
      LogError ''failed to get tag value'' (Errorf ''no such column'')]"




section \<open>Properties\<close>

subsection \<open>Printing decimals\<close>

lemma digit_value_digit: "d < 10 \<Longrightarrow> digit_value (digit d) = d"
  by (auto simp: digit_def digit_value_def less_Suc_eq numeral_eq_Suc)

lemma decimal_value_snoc: "decimal_value (s @ [c]) = 10 * decimal_value s + digit_value c"
  by (simp add: decimal_value_def)

lemma decimal_value_Sprintf_d: "decimal_value (Sprintf_d n) = n"
proof (induction n rule: Sprintf_d.induct)
  case (1 n)
  show ?case
  proof (cases "n < 10")
    case True
    then show ?thesis
      using decimal_value_snoc [of "[]" "digit n"]
      by (simp add: Sprintf_d.simps [of n] digit_value_digit decimal_value_def)
  next
    case False
    then show ?thesis
      using "1.IH" by (simp add: Sprintf_d.simps [of n] decimal_value_snoc digit_value_digit)
  qed
qed

subsection \<open>Search: the row loop and the page metadata\<close>

lemma Search_rows_Slice:
  "Search_rows conv rows (Slice xs, lg) =
     (Slice (xs @ List.map_filter (row_span conv) rows),
      lg @ List.map_filter (row_failure conv) rows)"
proof (induction rows arbitrary: xs lg)
  case Nil
  show ?case by simp
next
  case (Cons row rows)
  show ?case
  proof (cases row)
    case (Inl err)
    then show ?thesis
      by (simp add: Cons.IH row_span_def row_failure_def)
  next
    case (Inr s)
    then show ?thesis
      by (cases "conv s") (simp_all add: Cons.IH row_span_def row_failure_def append_go_def)
  qed
qed

lemma Search_ok:
  assumes "b r = Inr q"
    and "PrepareContext (client sr) (getQuery q) = Inr st"
    and "QueryContext (client sr) st = Inr rows"
  shows "Search b conv sr r =
     (Inr \<lparr>Spans = Slice (List.map_filter (row_span conv) rows),
           Metadata = Search_metadata (getSort q) (Slice (List.map_filter (row_span conv) rows))\<rparr>,
      List.map_filter (row_failure conv) rows)"
  using assms by (simp add: Search_def make0_def Search_rows_Slice)

lemma Search_Inr:
  assumes "Search b conv sr r = (Inr resp, lg)"
  obtains q st rows where "b r = Inr q"
    and "PrepareContext (client sr) (getQuery q) = Inr st"
    and "QueryContext (client sr) st = Inr rows"
  using assms by (auto simp: Search_def split: sum.splits prod.splits)

lemma Search_metadata_empty: "elems spans = [] \<Longrightarrow> Search_metadata f spans = Null"
  by (simp add: Search_metadata_def len_def)

lemma Search_metadata_last:
  assumes "elems spans \<noteq> []"
  shows "Search_metadata f spans =
     (case last (elems spans) of
        Null \<Rightarrow> Null
      | Ptr s \<Rightarrow> Ptr \<lparr>NextToken = Sprintf_d (unat
          (if f = ''duration'' then DurationNano (ExternalFields s)
           else StartTimeUnixNano (Span s)))\<rparr>)"
  using assms by (simp add: Search_metadata_def len_def last_conv_nth split: ptr.splits)

lemma scenario_build: "scenario_buildSearchQuery scenario_request = Inr scenario_query"
  by (simp add: scenario_buildSearchQuery_def scenario_request_def scenario_query_def)

lemma scenario_prepare:
  "PrepareContext (client (scenario_reader rows)) query = Inr (Stmt query)"
  by (simp add: scenario_reader_def)

lemma scenario_rows: "QueryContext (client (scenario_reader rows)) st = Inr rows"
  by (simp add: scenario_reader_def)

lemma scenario_spans:
  "List.map_filter (row_span scenario_toInternalSpan) scenario_span_rows =
     [Ptr (scenario_span ''s1'' 100 7), Ptr (scenario_span ''s2'' 50 9)]"
  by (simp add: scenario_span_rows_def row_span_def scenario_toInternalSpan_def scenario_span_def)

lemma scenario_failures:
  "List.map_filter (row_failure scenario_toInternalSpan) scenario_span_rows = scenario_log"
  by (simp add: scenario_span_rows_def row_failure_def scenario_toInternalSpan_def scenario_log_def)

lemma scenario_token:
  "Search_metadata ''start_time_unix_nano''
     (Slice [Ptr (scenario_span ''s1'' 100 7), Ptr (scenario_span ''s2'' 50 9)]) =
   Ptr \<lparr>NextToken = ''50''\<rparr>"
  by (simp add: Search_metadata_def len_def scenario_span_def Sprintf_d.simps digit_def)

lemma scenario_Search:
  "Search scenario_buildSearchQuery scenario_toInternalSpan
     (scenario_reader scenario_span_rows) scenario_request = (Inr scenario_page, scenario_log)"
  using Search_ok [of scenario_buildSearchQuery scenario_request scenario_query
      "scenario_reader scenario_span_rows" "Stmt ''SELECT spans''" scenario_span_rows
      scenario_toInternalSpan]
  by (simp add: scenario_build scenario_prepare scenario_rows scenario_spans scenario_failures scenario_token scenario_page_def
      scenario_query_def)

lemma scenario_Search_failing:
  "Search scenario_buildSearchQuery scenario_toInternalSpan
     (scenario_reader scenario_failing_rows) scenario_request =
   (Inr scenario_empty_page, scenario_log)"
  using Search_ok [of scenario_buildSearchQuery scenario_request scenario_query
      "scenario_reader scenario_failing_rows" "Stmt ''SELECT spans''" scenario_failing_rows
      scenario_toInternalSpan]
  by (simp add: scenario_build scenario_prepare scenario_rows scenario_failing_rows_def row_span_def row_failure_def
      scenario_toInternalSpan_def scenario_log_def scenario_empty_page_def
      scenario_query_def Search_metadata_def len_def)








lemma map_filter_all_None: "(\<forall>x\<in>set xs. f x = None) \<Longrightarrow> List.map_filter f xs = []"
  by (induction xs) simp_all

lemma row_span_or_failure: "row_span conv row = None \<longleftrightarrow> row_failure conv row \<noteq> None"
  by (simp add: row_span_def row_failure_def split: sum.splits)

text \<open>
  C2 says that the cursor is absent whenever the page holds fewer spans than the request's
  page size. The reader does not look at the page size: in scenario 1 the request allows
  ten spans, two come back, and the response carries the token \<open>50\<close>.
\<close>

theorem Search_token_on_short_page:
  "fst (Search scenario_buildSearchQuery scenario_toInternalSpan
          (scenario_reader scenario_span_rows) scenario_request) = Inr scenario_page \<and>
   len (Spans scenario_page) < PageSize scenario_request \<and>
   Metadata scenario_page \<noteq> Null"
proof (intro conjI)
  show "fst (Search scenario_buildSearchQuery scenario_toInternalSpan
          (scenario_reader scenario_span_rows) scenario_request) = Inr scenario_page"
    by (simp add: scenario_Search)
  show "len (Spans scenario_page) < PageSize scenario_request"
    by (simp add: scenario_page_def scenario_request_def len_def)
  show "Metadata scenario_page \<noteq> Null"
    by (simp add: scenario_page_def)
qed

text \<open>
  C2, amended. The continuation cursor of a response is absent exactly when the page has
  no span, or its last entry is a nil span; a page that is not full but ends in a span
  carries a cursor, whatever page size was requested.
\<close>

theorem Search_token_absent_iff:
  assumes "Search b conv sr r = (Inr resp, lg)"
  shows "Metadata resp = Null \<longleftrightarrow>
         len (Spans resp) = 0 \<or> last (elems (Spans resp)) = Null"
proof -
  from assms obtain q :: searchQueryResponse
    where m: "Metadata resp = Search_metadata (getSort q) (Spans resp)"
    by (auto simp: Search_def split: sum.splits prod.splits)
  show ?thesis
  proof (cases "elems (Spans resp) = []")
    case True
    with m show ?thesis by (simp add: Search_metadata_empty len_def)
  next
    case False
    with m show ?thesis by (simp add: Search_metadata_last len_def split: ptr.splits)
  qed
qed

theorem Search_token_absent_iff_witness:
  "Search scenario_buildSearchQuery scenario_toInternalSpan
     (scenario_reader scenario_span_rows) scenario_request = (Inr scenario_page, scenario_log) \<and>
   len (Spans scenario_page) = 2 \<and>
   last (elems (Spans scenario_page)) = Ptr (scenario_span ''s2'' 50 9) \<and>
   Metadata scenario_page \<noteq> Null \<and>
   Search scenario_buildSearchQuery scenario_toInternalSpan
     (scenario_reader scenario_failing_rows) scenario_request =
     (Inr scenario_empty_page, scenario_log) \<and>
   len (Spans scenario_empty_page) = 0 \<and>
   Metadata scenario_empty_page = Null"
  using Search_token_absent_iff [OF scenario_Search]
    Search_token_absent_iff [OF scenario_Search_failing]
    scenario_Search scenario_Search_failing
  by (simp add: scenario_page_def scenario_empty_page_def len_def)

text \<open>
  C3. The spans of a search that returns no error are never the nil slice; when the query
  yields no row, or no row decodes, they are the allocated empty slice.
\<close>

theorem Search_spans_never_nil:
  "(Search b conv sr r = (Inr resp, lg) \<longrightarrow> Spans resp \<noteq> NilSlice) \<and>
   (b r = Inr q \<and> PrepareContext (client sr) (getQuery q) = Inr st \<and>
    QueryContext (client sr) st = Inr rows \<and> (\<forall>row\<in>set rows. row_span conv row = None) \<longrightarrow>
    fst (Search b conv sr r) = Inr \<lparr>Spans = Slice [], Metadata = Null\<rparr>)"
proof (intro conjI impI)
  assume s: "Search b conv sr r = (Inr resp, lg)"
  then obtain q' st' rows' where "b r = Inr q'"
    and "PrepareContext (client sr) (getQuery q') = Inr st'"
    and "QueryContext (client sr) st' = Inr rows'"
    by (rule Search_Inr)
  with Search_ok [of b r q' sr st' rows' conv] s show "Spans resp \<noteq> NilSlice"
    by auto
next
  assume a: "b r = Inr q \<and> PrepareContext (client sr) (getQuery q) = Inr st \<and>
    QueryContext (client sr) st = Inr rows \<and> (\<forall>row\<in>set rows. row_span conv row = None)"
  then have "List.map_filter (row_span conv) rows = []"
    by (simp add: map_filter_all_None)
  with a Search_ok [of b r q sr st rows conv]
  show "fst (Search b conv sr r) = Inr \<lparr>Spans = Slice [], Metadata = Null\<rparr>"
    by (simp add: Search_metadata_empty)
qed

theorem Search_spans_never_nil_witness:
  "Search scenario_buildSearchQuery scenario_toInternalSpan
     (scenario_reader scenario_span_rows) scenario_request = (Inr scenario_page, scenario_log) \<and>
   Spans scenario_page \<noteq> NilSlice \<and>
   scenario_buildSearchQuery scenario_request = Inr scenario_query \<and>
   PrepareContext (client (scenario_reader scenario_failing_rows)) (getQuery scenario_query) =
     Inr (Stmt ''SELECT spans'') \<and>
   QueryContext (client (scenario_reader scenario_failing_rows)) (Stmt ''SELECT spans'') =
     Inr scenario_failing_rows \<and>
   list_all (\<lambda>row. row_span scenario_toInternalSpan row = None) scenario_failing_rows \<and>
   fst (Search scenario_buildSearchQuery scenario_toInternalSpan
          (scenario_reader scenario_failing_rows) scenario_request) =
     Inr \<lparr>Spans = Slice [], Metadata = Null\<rparr>"
  using Search_spans_never_nil [of scenario_buildSearchQuery scenario_toInternalSpan
      "scenario_reader scenario_span_rows" scenario_request scenario_page scenario_log]
    Search_spans_never_nil [of scenario_buildSearchQuery scenario_toInternalSpan
      "scenario_reader scenario_failing_rows" scenario_request _ _ scenario_query
      "Stmt ''SELECT spans''" scenario_failing_rows]
    scenario_Search scenario_build
  by (simp add: scenario_prepare scenario_rows scenario_query_def scenario_failing_rows_def
      row_span_def scenario_toInternalSpan_def)

text \<open>
  C4. Once the query runs, the search succeeds whatever the rows are: a row whose scan or
  conversion fails is skipped and logged, and the response holds the spans of all other
  rows, in the order of the rows. (The reader logs at error level.)
\<close>

theorem Search_skips_undecodable_rows:
  assumes "b r = Inr q"
    and "PrepareContext (client sr) (getQuery q) = Inr st"
    and "QueryContext (client sr) st = Inr rows"
  shows "\<exists>resp. Search b conv sr r = (Inr resp, List.map_filter (row_failure conv) rows) \<and>
           Spans resp = Slice (List.map_filter (row_span conv) rows) \<and>
           (\<forall>row\<in>set rows. row_span conv row = None \<longleftrightarrow> row_failure conv row \<noteq> None)"
  using Search_ok [of b r q sr st rows conv] assms by (simp add: row_span_or_failure)

theorem Search_skips_undecodable_rows_witness:
  "scenario_buildSearchQuery scenario_request = Inr scenario_query \<and>
   PrepareContext (client (scenario_reader scenario_span_rows)) (getQuery scenario_query) =
     Inr (Stmt ''SELECT spans'') \<and>
   QueryContext (client (scenario_reader scenario_span_rows)) (Stmt ''SELECT spans'') =
     Inr scenario_span_rows \<and>
   scenario_span_rows =
     [Inr (''s1'', 100, 7), Inl (Errorf ''column type mismatch''),
      Inr ('''', 80, 1), Inr (''s2'', 50, 9)] \<and>
   (\<exists>resp. Search scenario_buildSearchQuery scenario_toInternalSpan
        (scenario_reader scenario_span_rows) scenario_request =
        (Inr resp,
         [LogError ''failed to get span value'' (Errorf ''column type mismatch''),
          LogError ''failed to convert span'' (Errorf ''span without id'')]) \<and>
      Spans resp = Slice [Ptr (scenario_span ''s1'' 100 7), Ptr (scenario_span ''s2'' 50 9)])"
  using Search_skips_undecodable_rows [of scenario_buildSearchQuery scenario_request
      scenario_query "scenario_reader scenario_span_rows" "Stmt ''SELECT spans''"
      scenario_span_rows scenario_toInternalSpan]
    scenario_build
  by (simp add: scenario_prepare scenario_rows scenario_spans scenario_failures
      scenario_log_def scenario_query_def) (auto simp add: scenario_span_rows_def)

subsection \<open>GetAvailableTags: the tag list\<close>

lemma scanned_simps [simp]:
  "scanned [] = []"
  "scanned (Inl err # rows) = scanned rows"
  "scanned (Inr v # rows) = v # scanned rows"
  by (simp_all add: scanned_def)

lemma GetAvailableTags_static_elems:
  "elems (GetAvailableTags_static m tags) = elems tags @ map static_tag m"
proof (induction m arbitrary: tags)
  case Nil
  show ?case by simp
next
  case (Cons e m)
  obtain tagName fieldType where e: "e = (tagName, fieldType)"
    by (cases e)
  show ?case
    by (simp add: e Cons.IH append_go_def static_tag_def)
qed

lemma GetAvailableTags_rows_elems:
  "elems (fst (GetAvailableTags_rows rows (tags, lg))) =
     elems tags @ map dynamic_tag (filter both_non_empty (scanned rows))"
proof (induction rows arbitrary: tags lg)
  case Nil
  show ?case by simp
next
  case (Cons row rows)
  show ?case
  proof (cases row)
    case (Inl err)
    then show ?thesis by (simp add: Cons.IH)
  next
    case (Inr t)
    then show ?thesis
      by (simp add: Cons.IH both_non_empty_def dynamic_tag_def qualified_name_def append_go_def)
  qed
qed

lemma GetAvailableTags_elems:
  assumes "GetAvailableTags m query sr r = (Inr resp, lg)"
    and "PrepareContext (client sr) query = Inr st"
    and "QueryContext (client sr) st = Inr rows"
  shows "elems (Tags resp) =
     map static_tag m @ map dynamic_tag (filter both_non_empty (scanned rows))"
proof -
  obtain tags' lg' where l: "GetAvailableTags_rows rows (GetAvailableTags_static m NilSlice, []) = (tags', lg')"
    by (cases "GetAvailableTags_rows rows (GetAvailableTags_static m NilSlice, [])")
  with assms have "resp = \<lparr>Tags = tags'\<rparr>"
    by (simp add: GetAvailableTags_def)
  moreover from l have "elems tags' =
      elems (GetAvailableTags_static m NilSlice) @
      map dynamic_tag (filter both_non_empty (scanned rows))"
    using GetAvailableTags_rows_elems [of rows "GetAvailableTags_static m NilSlice" "[]"]
    by simp
  ultimately show ?thesis
    by (simp add: GetAvailableTags_static_elems)
qed

lemma scenario_GetAvailableTags:
  "GetAvailableTags scenario_static ''SELECT tags'' (scenario_reader scenario_tag_rows) () =
     (Inr scenario_tags, [LogError ''failed to get tag value'' (Errorf ''column type mismatch'')])"
  by (simp add: GetAvailableTags_def scenario_static_def scenario_reader_def
      scenario_tag_rows_def scenario_tag_def scenario_tags_def append_go_def)

lemma scenario_GetAvailableTags_clash:
  "GetAvailableTags scenario_static ''SELECT tags'' (scenario_reader scenario_clash_rows) () =
     (Inr scenario_clash_tags, [])"
  by (simp add: GetAvailableTags_def scenario_static_def scenario_reader_def
      scenario_clash_rows_def scenario_tag_def scenario_clash_tags_def append_go_def)

text \<open>
  C5. After a successful call every tag of the static registry is in the output under its
  bare name, every discovered pair with a non-empty source and a non-empty field is in it
  as \<open>source.field\<close> with the reported type, and nothing else is: the output is the
  static entries followed by the entries of exactly those pairs, in the order of the rows.
\<close>

theorem GetAvailableTags_static_and_discovered:
  assumes "GetAvailableTags m query sr r = (Inr resp, lg)"
    and "PrepareContext (client sr) query = Inr st"
    and "QueryContext (client sr) st = Inr rows"
  shows "(\<forall>e\<in>set m. \<lparr>Name = fst e, Type = snd e\<rparr> \<in> set (elems (Tags resp))) \<and>
     (\<forall>t\<in>set (scanned rows). getTableKey t \<noteq> '''' \<and> getTagName t \<noteq> '''' \<longrightarrow>
        \<lparr>Name = getTableKey t @ ''.'' @ getTagName t, Type = getTagType t\<rparr>
          \<in> set (elems (Tags resp))) \<and>
     elems (Tags resp) =
       map static_tag m @ map dynamic_tag (filter both_non_empty (scanned rows))"
proof -
  note eq = GetAvailableTags_elems [OF assms]
  have "\<forall>e\<in>set m. \<lparr>Name = fst e, Type = snd e\<rparr> \<in> set (elems (Tags resp))"
    by (auto simp: eq static_tag_def)
  moreover have "\<forall>t\<in>set (scanned rows). getTableKey t \<noteq> '''' \<and> getTagName t \<noteq> '''' \<longrightarrow>
        \<lparr>Name = getTableKey t @ ''.'' @ getTagName t, Type = getTagType t\<rparr>
          \<in> set (elems (Tags resp))"
    by (auto simp: eq dynamic_tag_def qualified_name_def both_non_empty_def)
  ultimately show ?thesis using eq by simp
qed

theorem GetAvailableTags_static_and_discovered_witness:
  "GetAvailableTags scenario_static ''SELECT tags'' (scenario_reader scenario_tag_rows) () =
     (Inr scenario_tags, [LogError ''failed to get tag value'' (Errorf ''column type mismatch'')]) \<and>
   PrepareContext (client (scenario_reader scenario_tag_rows)) ''SELECT tags'' =
     Inr (Stmt ''SELECT tags'') \<and>
   QueryContext (client (scenario_reader scenario_tag_rows)) (Stmt ''SELECT tags'') =
     Inr scenario_tag_rows \<and>
   scanned scenario_tag_rows =
     [scenario_tag ''resource'' ''service.name'' ''string'',
      scenario_tag '''' ''orphan'' ''string'', scenario_tag ''scope'' '''' ''string''] \<and>
   elems (Tags scenario_tags) =
     [\<lparr>Name = ''http.method'', Type = ''string''\<rparr>,
      \<lparr>Name = ''resource.service.name'', Type = ''string''\<rparr>]"
  using GetAvailableTags_static_and_discovered [OF scenario_GetAvailableTags
      scenario_prepare scenario_rows]
    scenario_GetAvailableTags
  by (simp add: scenario_prepare scenario_rows)
    (simp add: scenario_tag_rows_def scenario_tags_def)

text \<open>
  C6 says that no two entries of the output have the same qualified name, whatever the
  discovery query yields. The reader appends an entry for every row and removes none: when
  the discovery reports \<open>span\<close>, \<open>http.status_code\<close> once as a number and once as a string,
  the output has two entries named \<open>span.http.status_code\<close>.
\<close>

theorem GetAvailableTags_repeats_a_name:
  "fst (GetAvailableTags scenario_static ''SELECT tags''
          (scenario_reader scenario_clash_rows) ()) = Inr scenario_clash_tags \<and>
   \<not> distinct (map Name (elems (Tags scenario_clash_tags)))"
  by (simp add: scenario_GetAvailableTags_clash) (simp add: scenario_clash_tags_def)

text \<open>
  C6, amended. The output has no two entries with the same qualified name exactly when
  the names it is built from are pairwise distinct: the static names and the qualified
  names of the discovered pairs with both parts non-empty.
\<close>

theorem GetAvailableTags_distinct_iff:
  assumes "GetAvailableTags m query sr r = (Inr resp, lg)"
    and "PrepareContext (client sr) query = Inr st"
    and "QueryContext (client sr) st = Inr rows"
  shows "distinct (map Name (elems (Tags resp))) \<longleftrightarrow>
     distinct (map fst m @ map qualified_name (filter both_non_empty (scanned rows)))"
proof -
  have "map Name (elems (Tags resp)) =
      map fst m @ map qualified_name (filter both_non_empty (scanned rows))"
    by (simp add: GetAvailableTags_elems [OF assms] static_tag_def dynamic_tag_def comp_def)
  then show ?thesis by simp
qed

theorem GetAvailableTags_distinct_iff_witness:
  "GetAvailableTags scenario_static ''SELECT tags'' (scenario_reader scenario_tag_rows) () =
     (Inr scenario_tags, [LogError ''failed to get tag value'' (Errorf ''column type mismatch'')]) \<and>
   PrepareContext (client (scenario_reader scenario_tag_rows)) ''SELECT tags'' =
     Inr (Stmt ''SELECT tags'') \<and>
   QueryContext (client (scenario_reader scenario_tag_rows)) (Stmt ''SELECT tags'') =
     Inr scenario_tag_rows \<and>
   distinct (map Name (elems (Tags scenario_tags))) \<and>
   distinct (map fst scenario_static @
     map qualified_name (filter both_non_empty (scanned scenario_tag_rows)))"
  using GetAvailableTags_distinct_iff [OF scenario_GetAvailableTags
      scenario_prepare scenario_rows]
    scenario_GetAvailableTags
  by (simp add: scenario_prepare scenario_rows) (simp add: scenario_tags_def)

subsection \<open>GetTagValues, GetTagsValues and the operations that are not implemented\<close>

lemma GetTagValues_rows_elems:
  "elems (fst (GetTagValues_rows rows (vals, lg))) =
     elems vals @ map value_entry (filter (\<lambda>row. fst row \<noteq> None) (scanned rows))"
proof (induction rows arbitrary: vals lg)
  case Nil
  show ?case by simp
next
  case (Cons row rows)
  show ?case
  proof (cases row)
    case (Inl err)
    then show ?thesis by (simp add: Cons.IH)
  next
    case (Inr v)
    obtain name count where v: "v = (name, count)"
      by (cases v)
    show ?thesis
      by (simp add: Inr v Cons.IH value_entry_def append_go_def)
  qed
qed

lemma GetTagValues_rows_no_value:
  "\<forall>row\<in>set rows. no_value row \<Longrightarrow> fst (GetTagValues_rows rows (vals, lg)) = vals"
proof (induction rows arbitrary: lg)
  case Nil
  show ?case by simp
next
  case (Cons row rows)
  show ?case
  proof (cases row)
    case (Inl err)
    with Cons show ?thesis by simp
  next
    case (Inr v)
    obtain name count where v: "v = (name, count)"
      by (cases v)
    with Cons Inr show ?thesis by (simp add: no_value_def)
  qed
qed

lemma GetTagValues_ok:
  assumes "b r tag = Inr q"
    and "PrepareContext (client sr) (getQuery' q) = Inr st"
    and "QueryContext (client sr) st = Inr rows"
  shows "fst (GetTagValues b sr r tag) =
     Inr \<lparr>Values = fst (GetTagValues_rows rows (NilSlice, []))\<rparr>"
  using assms by (simp add: GetTagValues_def split: prod.splits)

lemma GetTagsValues_loop_eq:
  "GetTagsValues_loop b sr r tags (result, lg) =
     ((\<lambda>tag. if tag \<in> set tags \<and> tag_lookup b sr r tag \<noteq> None
             then tag_lookup b sr r tag else result tag),
      lg @ concat (map (tag_log b sr r) tags))"
proof (induction tags arbitrary: result lg)
  case Nil
  show ?case by simp
next
  case (Cons tag tags)
  obtain res lg' where g: "GetTagValues b sr r tag = (res, lg')"
    by (cases "GetTagValues b sr r tag")
  show ?case
  proof (cases res)
    case (Inl err)
    with g show ?thesis
      by (auto simp: Cons.IH tag_lookup_def tag_log_def fun_eq_iff)
  next
    case (Inr resp)
    with g show ?thesis
      by (auto simp: Cons.IH tag_lookup_def tag_log_def fun_eq_iff)
  qed
qed

lemma GetTagsValues_eq:
  "GetTagsValues b sr r tags =
     (Inr (\<lambda>tag. if tag \<in> set tags then tag_lookup b sr r tag else None),
      concat (map (tag_log b sr r) tags))"
  by (auto simp: GetTagsValues_def GetTagsValues_loop_eq fun_eq_iff)

lemma tag_log_failure:
  "fst (GetTagValues b sr r tag) = Inl err \<Longrightarrow>
   LogError ''failed to get tag value'' err \<in> set (tag_log b sr r tag)"
  by (cases "GetTagValues b sr r tag") (simp add: tag_log_def)

lemma scenario_prepare_b:
  "PrepareContext (client (scenario_reader_b rows)) query = Inr (Stmt query)"
  by (simp add: scenario_reader_b_def)

lemma scenario_GetTagValues:
  "GetTagValues scenario_buildTagValuesQuery (scenario_reader scenario_value_rows) ()
     ''http.method'' = (Inr scenario_values, [])"
  by (simp add: GetTagValues_def scenario_buildTagValuesQuery_def scenario_reader_def
      scenario_value_rows_def scenario_values_def append_go_def)

lemma scenario_GetTagValues_a:
  "GetTagValues scenario_buildTagValuesQuery (scenario_reader_b scenario_value_rows) () ''a'' =
     (Inr scenario_values, [])"
  by (simp add: GetTagValues_def scenario_buildTagValuesQuery_def scenario_reader_b_def
      scenario_value_rows_def scenario_values_def append_go_def)

lemma scenario_GetTagValues_b:
  "GetTagValues scenario_buildTagValuesQuery (scenario_reader_b scenario_value_rows) () ''b'' =
     (Inl (Errorf ''no such column''),
      [LogError ''failed to query tags values for: b'' (Errorf ''no such column'')])"
  by (simp add: GetTagValues_def scenario_buildTagValuesQuery_def scenario_reader_b_def)

text \<open>
  C7. After a successful call no entry of the value list has a nil value, and the list has
  one entry (value, count) for each row that was scanned with a non-null value, in the
  order of the rows.
\<close>

theorem GetTagValues_no_null_value:
  assumes "GetTagValues b sr r tag = (Inr resp, lg)"
    and "b r tag = Inr q"
    and "PrepareContext (client sr) (getQuery' q) = Inr st"
    and "QueryContext (client sr) st = Inr rows"
  shows "(\<forall>e\<in>set (elems (Values resp)). Value e \<noteq> None) \<and>
     elems (Values resp) =
       map (\<lambda>row. \<lparr>Value = fst row, Count = snd row\<rparr>)
         (filter (\<lambda>row. fst row \<noteq> None) (scanned rows))"
proof -
  from GetTagValues_ok [of b r tag q sr st rows] assms
  have "Values resp = fst (GetTagValues_rows rows (NilSlice, []))"
    by simp
  then have eq: "elems (Values resp) =
      map value_entry (filter (\<lambda>row. fst row \<noteq> None) (scanned rows))"
    by (simp add: GetTagValues_rows_elems)
  then have "\<forall>e\<in>set (elems (Values resp)). Value e \<noteq> None"
    by (auto simp: value_entry_def)
  with eq show ?thesis
    by (simp add: value_entry_def [abs_def])
qed

theorem GetTagValues_no_null_value_witness:
  "GetTagValues scenario_buildTagValuesQuery (scenario_reader scenario_value_rows) ()
     ''http.method'' = (Inr scenario_values, []) \<and>
   scenario_buildTagValuesQuery () ''http.method'' =
     Inr \<lparr>getQuery' = ''SELECT values of http.method''\<rparr> \<and>
   PrepareContext (client (scenario_reader scenario_value_rows))
     ''SELECT values of http.method'' = Inr (Stmt ''SELECT values of http.method'') \<and>
   QueryContext (client (scenario_reader scenario_value_rows))
     (Stmt ''SELECT values of http.method'') =
     Inr [Inr (Some ''GET'', 12), Inr (Some ''POST'', 3), Inr (None, 5)] \<and>
   elems (Values scenario_values) =
     [\<lparr>Value = Some ''GET'', Count = 12\<rparr>, \<lparr>Value = Some ''POST'', Count = 3\<rparr>]"
  using GetTagValues_no_null_value [OF scenario_GetTagValues, of
      "\<lparr>getQuery' = ''SELECT values of http.method''\<rparr>"
      "Stmt ''SELECT values of http.method''" scenario_value_rows]
    scenario_GetTagValues
  by (simp add: scenario_buildTagValuesQuery_def scenario_prepare scenario_rows)
    (simp add: scenario_value_rows_def scenario_values_def)

text \<open>
  C8. The batch call never fails. Its result maps a tag to the response of that tag's own
  lookup when the tag is in the list and the lookup succeeds, and has no entry for any
  other tag; for a tag whose lookup fails, the failure is in the log.
\<close>

theorem GetTagsValues_omits_failed_tags:
  "\<exists>m. GetTagsValues b sr r tags = (Inr m, concat (map (tag_log b sr r) tags)) \<and>
     (\<forall>tag. m tag =
        (if tag \<in> set tags
         then (case fst (GetTagValues b sr r tag) of Inl err \<Rightarrow> None | Inr resp \<Rightarrow> Some resp)
         else None)) \<and>
     (\<forall>tag\<in>set tags. \<forall>err. fst (GetTagValues b sr r tag) = Inl err \<longrightarrow>
        LogError ''failed to get tag value'' err \<in> set (concat (map (tag_log b sr r) tags)))"
proof -
  have "\<forall>tag\<in>set tags. \<forall>err. fst (GetTagValues b sr r tag) = Inl err \<longrightarrow>
        LogError ''failed to get tag value'' err \<in> set (concat (map (tag_log b sr r) tags))"
    using tag_log_failure [of b sr r] by fastforce
  then show ?thesis
    by (simp add: GetTagsValues_eq tag_lookup_def)
qed

theorem GetTagsValues_omits_failed_tags_witness:
  "fst (GetTagValues scenario_buildTagValuesQuery (scenario_reader_b scenario_value_rows) ()
     ''a'') = Inr scenario_values \<and>
   fst (GetTagValues scenario_buildTagValuesQuery (scenario_reader_b scenario_value_rows) ()
     ''b'') = Inl (Errorf ''no such column'') \<and>
   (\<exists>m. GetTagsValues scenario_buildTagValuesQuery (scenario_reader_b scenario_value_rows) ()
        [''a'', ''b''] = (Inr m, scenario_b_log) \<and>
      m ''a'' = Some scenario_values \<and> m ''b'' = None \<and> m ''c'' = None \<and>
      LogError ''failed to get tag value'' (Errorf ''no such column'') \<in> set scenario_b_log)"
proof -
  from GetTagsValues_omits_failed_tags [of scenario_buildTagValuesQuery
      "scenario_reader_b scenario_value_rows" "()" "[''a'', ''b'']"]
  obtain m where
    g: "GetTagsValues scenario_buildTagValuesQuery (scenario_reader_b scenario_value_rows) ()
          [''a'', ''b''] =
        (Inr m, concat (map (tag_log scenario_buildTagValuesQuery
           (scenario_reader_b scenario_value_rows) ()) [''a'', ''b'']))"
    and l: "\<And>tag. m tag =
        (if tag \<in> set [''a'', ''b'']
         then (case fst (GetTagValues scenario_buildTagValuesQuery
                 (scenario_reader_b scenario_value_rows) () tag) of
                 Inl err \<Rightarrow> None | Inr resp \<Rightarrow> Some resp)
         else None)"
    by blast
  from g have "GetTagsValues scenario_buildTagValuesQuery
      (scenario_reader_b scenario_value_rows) () [''a'', ''b''] = (Inr m, scenario_b_log)"
    by (simp add: tag_log_def scenario_GetTagValues_a scenario_GetTagValues_b
        scenario_b_log_def)
  moreover have "m ''a'' = Some scenario_values"
    by (simp add: l scenario_GetTagValues_a)
  moreover have "m ''b'' = None"
    by (simp add: l scenario_GetTagValues_b)
  moreover have "m ''c'' = None"
    by (simp add: l)
  moreover have "LogError ''failed to get tag value'' (Errorf ''no such column'')
      \<in> set scenario_b_log"
    by (simp add: scenario_b_log_def)
  ultimately show ?thesis
    by (simp add: scenario_GetTagValues_a scenario_GetTagValues_b)
qed

text \<open>
  C10. When the query of a tag runs and every row is a scan failure or has a null value
  (also when there is no row), the lookup succeeds with a response whose value list is
  empty (the nil slice, of length 0), and a batch call over a list with that tag maps the
  tag to this response.
\<close>

theorem GetTagValues_empty_value_list:
  assumes "b r tag = Inr q"
    and "PrepareContext (client sr) (getQuery' q) = Inr st"
    and "QueryContext (client sr) st = Inr rows"
    and "\<forall>row\<in>set rows. no_value row"
  shows "\<exists>resp. fst (GetTagValues b sr r tag) = Inr resp \<and>
     Values resp = NilSlice \<and> len (Values resp) = 0 \<and>
     (tag \<in> set tags \<longrightarrow>
        (\<exists>m. fst (GetTagsValues b sr r tags) = Inr m \<and> m tag = Some resp))"
proof -
  from assms have "fst (GetTagValues b sr r tag) = Inr \<lparr>Values = NilSlice\<rparr>"
    by (simp add: GetTagValues_ok [of b r tag q sr st rows] GetTagValues_rows_no_value)
  then show ?thesis
    by (simp add: GetTagsValues_eq tag_lookup_def len_def)
qed

theorem GetTagValues_empty_value_list_witness:
  "scenario_buildTagValuesQuery () ''a'' = Inr \<lparr>getQuery' = ''SELECT values of a''\<rparr> \<and>
   PrepareContext (client (scenario_reader scenario_null_rows)) ''SELECT values of a'' =
     Inr (Stmt ''SELECT values of a'') \<and>
   QueryContext (client (scenario_reader scenario_null_rows)) (Stmt ''SELECT values of a'') =
     Inr scenario_null_rows \<and>
   list_all no_value scenario_null_rows \<and>
   ''a'' \<in> set [''a'', ''c''] \<and>
   (\<exists>resp. fst (GetTagValues scenario_buildTagValuesQuery (scenario_reader scenario_null_rows)
        () ''a'') = Inr resp \<and>
      len (Values resp) = 0 \<and>
      (\<exists>m. fst (GetTagsValues scenario_buildTagValuesQuery (scenario_reader scenario_null_rows)
           () [''a'', ''c'']) = Inr m \<and> m ''a'' = Some resp))"
  using GetTagValues_empty_value_list [of scenario_buildTagValuesQuery "()" "''a''"
      "\<lparr>getQuery' = ''SELECT values of a''\<rparr>" "scenario_reader scenario_null_rows"
      "Stmt ''SELECT values of a''" scenario_null_rows "[''a'', ''c'']"]
  by (simp add: scenario_buildTagValuesQuery_def scenario_prepare scenario_rows
      scenario_null_rows_def no_value_def) blast


end
